theory Spec2Isabelle
  imports Complex_Main "HOL-Library.Sublist"
begin

section \<open>Python values used by the core\<close>

text \<open>
  The core of IGED (command parser, orchestrator, memory engine, voice pipeline) is
  Python. Text is modelled as \<^typ>\<open>string\<close>; the character tests below are those of
  Python on ASCII, and characters above 127 are opaque symbols (neither space, letter
  nor digit). Exceptions are values of \<open>py_error\<close>; a function that can raise returns
  \<open>py_error + 'a\<close>.
\<close>

datatype py_error = AttributeError | TypeError | KeyError | ZeroDivisionError | IOError
  | JSONDecodeError | EncryptionError

text \<open>
  The audit log is a Python list of dicts that is written with \<open>json.dumps\<close> and read
  back with \<open>json.load\<close>, so its elements are JSON values. A dict is an association
  list in insertion order. Floats do not occur in the entries the core builds and are
  left out.
\<close>

datatype json = JNull | JBool bool | JInt int | JString string
  | JArray "json list" | JObject "(string \<times> json) list"

definition upper_chars :: string where
  "upper_chars = ''ABCDEFGHIJKLMNOPQRSTUVWXYZ''"

definition lower_chars :: string where
  "lower_chars = ''abcdefghijklmnopqrstuvwxyz''"

definition is_upper :: "char \<Rightarrow> bool" where
  "is_upper c = (c \<in> set upper_chars)"

definition is_lower :: "char \<Rightarrow> bool" where
  "is_lower c = (c \<in> set lower_chars)"

definition digit_chars :: string where
  "digit_chars = ''0123456789''"


definition space_chars :: string where
  \<comment> \<open>\<open>str.isspace\<close> on ASCII: tab, LF, VT, FF, CR, FS, GS, RS, US and space\<close>
  "space_chars = [CHR 0x09, CHR 0x0A, CHR 0x0B, CHR 0x0C, CHR 0x0D,
                  CHR 0x1C, CHR 0x1D, CHR 0x1E, CHR 0x1F, CHR 0x20]"

definition is_space :: "char \<Rightarrow> bool" where
  "is_space c = (c \<in> set space_chars)"

definition lower_char :: "char \<Rightarrow> char" where
  "lower_char c = (case map_of (zip upper_chars lower_chars) c of Some d \<Rightarrow> d | None \<Rightarrow> c)"

definition upper_char :: "char \<Rightarrow> char" where
  "upper_char c = (case map_of (zip lower_chars upper_chars) c of Some d \<Rightarrow> d | None \<Rightarrow> c)"

definition py_lower :: "string \<Rightarrow> string" where
  \<comment> \<open>\<open>str.lower()\<close>\<close>
  "py_lower s = map lower_char s"

definition py_strip :: "string \<Rightarrow> string" where
  \<comment> \<open>\<open>str.strip()\<close>\<close>
  "py_strip s = rev (dropWhile is_space (rev (dropWhile is_space s)))"

fun py_split :: "string \<Rightarrow> string list" where
  \<comment> \<open>\<open>str.split()\<close> with no argument: the maximal runs of non-space characters\<close>
  "py_split [] = []"
| "py_split (c # cs) =
     (if is_space c then py_split cs
      else (case py_split cs of
              [] \<Rightarrow> [[c]]
            | w # ws \<Rightarrow> (case cs of
                          [] \<Rightarrow> [[c]]
                        | d # _ \<Rightarrow> if is_space d then [c] # w # ws else (c # w) # ws)))"

fun str_contains :: "string \<Rightarrow> string \<Rightarrow> bool" where
  \<comment> \<open>\<open>needle in hay\<close> on Python strings\<close>
  "str_contains needle [] = (needle = [])"
| "str_contains needle (c # cs) = (prefix needle (c # cs) \<or> str_contains needle cs)"

definition digit_char :: "nat \<Rightarrow> char" where
  "digit_char n = ''0123456789'' ! (n mod 10)"

function str_nat :: "nat \<Rightarrow> string" where
  "str_nat n = (if n < 10 then [digit_char n] else str_nat (n div 10) @ [digit_char n])"
  by pat_completeness auto
termination
  by (relation "measure id") auto

declare str_nat.simps [simp del]

definition str_int :: "int \<Rightarrow> string" where
  \<comment> \<open>\<open>str(i)\<close> of a Python int\<close>
  "str_int i = (if i < 0 then CHR ''-'' # str_nat (nat (- i)) else str_nat (nat i))"

definition digit_value :: "char \<Rightarrow> int" where
  "digit_value c = (case map_of (zip digit_chars [0, 1, 2, 3, 4, 5, 6, 7, 8, 9]) c of
                      Some d \<Rightarrow> d | None \<Rightarrow> 0)"

definition py_int :: "string \<Rightarrow> int" where
  \<comment> \<open>\<open>int(s)\<close> on a run of decimal digits, which is what \<open>(\d+)\<close> captures; the
     conversion is taken without the interpreter's bound on the number of digits\<close>
  "py_int s = foldl (\<lambda>acc c. acc * 10 + digit_value c) 0 s"

fun py_get :: "json \<Rightarrow> string \<Rightarrow> json \<Rightarrow> py_error + json" where
  \<comment> \<open>\<open>entry.get(key, default)\<close>; only a dict has the method\<close>
  "py_get (JObject kvs) k d = Inr (case map_of kvs k of Some v \<Rightarrow> v | None \<Rightarrow> d)"
| "py_get _ k d = Inl AttributeError"

fun json_lower :: "json \<Rightarrow> py_error + string" where
  \<comment> \<open>\<open>value.lower()\<close>; only a str has the method\<close>
  "json_lower (JString s) = Inr (py_lower s)"
| "json_lower _ = Inl AttributeError"

fun truthy :: "json \<Rightarrow> bool" where
  "truthy JNull = False"
| "truthy (JBool b) = b"
| "truthy (JInt i) = (i \<noteq> 0)"
| "truthy (JString s) = (s \<noteq> [])"
| "truthy (JArray xs) = (xs \<noteq> [])"
| "truthy (JObject kvs) = (kvs \<noteq> [])"

definition py_slice_from :: "int \<Rightarrow> 'a list \<Rightarrow> 'a list" where
  \<comment> \<open>\<open>xs[start:]\<close>: a negative start counts from the end, and both are clipped\<close>
  "py_slice_from start xs =
     (let n = int (length xs);
          i = (if start < 0 then max (n + start) 0 else min start n)
      in drop (nat i) xs)"


section \<open>JSON text: \<open>json.dumps(data, indent=2, ensure_ascii=False)\<close>\<close>

text \<open>
  The encoder of the standard library, as the memory engine calls it: two spaces of
  indentation per level, \<open>,\<close> and a line break between items, \<open>: \<close> after a key,
  \<open>[]\<close> and \<open>{}\<close> for the empty containers. In a string the quote, the backslash and
  the control characters below 0x20 are escaped, the others are written as they are.
\<close>

definition dquote :: char where
  "dquote = CHR 0x22"

definition backslash :: char where
  "backslash = CHR 0x5C"

definition control_escapes :: "(char \<times> string) list" where
  \<comment> \<open>\<open>ESCAPE_DCT\<close> of \<open>json.encoder\<close>, without the quote and the backslash\<close>
  "control_escapes =
    [(CHR 0x00, ''u0000''), (CHR 0x01, ''u0001''), (CHR 0x02, ''u0002''), (CHR 0x03, ''u0003''),
     (CHR 0x04, ''u0004''), (CHR 0x05, ''u0005''), (CHR 0x06, ''u0006''), (CHR 0x07, ''u0007''),
     (CHR 0x08, ''b''), (CHR 0x09, ''t''), (CHR 0x0A, ''n''), (CHR 0x0B, ''u000b''),
     (CHR 0x0C, ''f''), (CHR 0x0D, ''r''), (CHR 0x0E, ''u000e''), (CHR 0x0F, ''u000f''),
     (CHR 0x10, ''u0010''), (CHR 0x11, ''u0011''), (CHR 0x12, ''u0012''), (CHR 0x13, ''u0013''),
     (CHR 0x14, ''u0014''), (CHR 0x15, ''u0015''), (CHR 0x16, ''u0016''), (CHR 0x17, ''u0017''),
     (CHR 0x18, ''u0018''), (CHR 0x19, ''u0019''), (CHR 0x1A, ''u001a''), (CHR 0x1B, ''u001b''),
     (CHR 0x1C, ''u001c''), (CHR 0x1D, ''u001d''), (CHR 0x1E, ''u001e''), (CHR 0x1F, ''u001f'')]"

definition escape_char :: "char \<Rightarrow> string" where
  "escape_char c =
     (if c = dquote then [backslash, dquote]
      else if c = backslash then [backslash, backslash]
      else (case map_of control_escapes c of
              Some e \<Rightarrow> backslash # e
            | None \<Rightarrow> [c]))"

definition encode_string :: "string \<Rightarrow> string" where
  "encode_string s = dquote # concat (map escape_char s) @ [dquote]"

definition newline_indent :: "nat \<Rightarrow> string" where
  "newline_indent lvl = CHR 0x0A # replicate (2 * lvl) CHR '' ''"

fun json_encode :: "nat \<Rightarrow> json \<Rightarrow> string"
  and encode_items :: "nat \<Rightarrow> json list \<Rightarrow> string"
  and encode_members :: "nat \<Rightarrow> (string \<times> json) list \<Rightarrow> string" where
  "json_encode lvl JNull = ''null''"
| "json_encode lvl (JBool b) = (if b then ''true'' else ''false'')"
| "json_encode lvl (JInt i) = str_int i"
| "json_encode lvl (JString s) = encode_string s"
| "json_encode lvl (JArray xs) =
     (if xs = [] then ''[]''
      else ''['' @ newline_indent (Suc lvl) @ encode_items (Suc lvl) xs
           @ newline_indent lvl @ '']'')"
| "json_encode lvl (JObject kvs) =
     (if kvs = [] then ''{}''
      else ''{'' @ newline_indent (Suc lvl) @ encode_members (Suc lvl) kvs
           @ newline_indent lvl @ ''}'')"
| "encode_items lvl [] = []"
| "encode_items lvl [x] = json_encode lvl x"
| "encode_items lvl (x # y # ys) =
     json_encode lvl x @ '','' @ newline_indent lvl @ encode_items lvl (y # ys)"
| "encode_members lvl [] = []"
| "encode_members lvl [(k, v)] = encode_string k @ '': '' @ json_encode lvl v"
| "encode_members lvl ((k, v) # m # ms) =
     encode_string k @ '': '' @ json_encode lvl v @ '','' @ newline_indent lvl
     @ encode_members lvl (m # ms)"

definition json_dumps :: "json \<Rightarrow> string" where
  "json_dumps v = json_encode 0 v"

section \<open>JSON text: \<open>json.load\<close>\<close>

text \<open>
  The decoder of the standard library: \<open>parse_value\<close> is \<open>scan_once\<close>,
  \<open>parse_items\<close> the loop of \<open>JSONArray\<close>, \<open>parse_members\<close> the loop of
  \<open>JSONObject\<close> and \<open>scan_string\<close> is \<open>scanstring\<close> in strict mode. Each returns
  the value and the rest of the text, or \<open>None\<close> where the decoder raises
  \<open>JSONDecodeError\<close>. White space is skipped where the decoder skips it, a repeated
  key keeps its last value, an escape \<open>\uXXXX\<close> is decoded when its code is below
  256, and a number with a fraction or an exponent (a float) is outside the model
  and read as an error. The tests \<open>length r < length s\<close> hold whenever they are
  reached; with them the recursion is seen to end.
\<close>

definition json_ws :: string where
  "json_ws = [CHR '' '', CHR 0x09, CHR 0x0A, CHR 0x0D]"


definition hex_value :: "char \<Rightarrow> nat option" where
  "hex_value c = map_of (zip ''0123456789abcdefABCDEF''
                   [0, 1, 2, 3, 4, 5, 6, 7, 8, 9, 10, 11, 12, 13, 14, 15, 10, 11, 12, 13, 14, 15]) c"

definition char_of_code :: "nat \<Rightarrow> char" where
  \<comment> \<open>\<open>chr(n)\<close> for a code below 256\<close>
  "char_of_code n =
     Char (odd n) (odd (n div 2)) (odd (n div 4)) (odd (n div 8))
          (odd (n div 16)) (odd (n div 32)) (odd (n div 64)) (odd (n div 128))"

definition decode_hex4 :: "char \<Rightarrow> char \<Rightarrow> char \<Rightarrow> char \<Rightarrow> char option" where
  "decode_hex4 h1 h2 h3 h4 =
     (case (hex_value h1, hex_value h2, hex_value h3, hex_value h4) of
        (Some a, Some b, Some c, Some d) \<Rightarrow>
          (let n = ((a * 16 + b) * 16 + c) * 16 + d in
           if n < 256 then Some (char_of_code n) else None)
      | _ \<Rightarrow> None)"

definition simple_escapes :: "(char \<times> char) list" where
  "simple_escapes =
     [(dquote, dquote), (backslash, backslash), (CHR ''/'', CHR ''/''), (CHR ''b'', CHR 0x08),
      (CHR ''f'', CHR 0x0C), (CHR ''n'', CHR 0x0A), (CHR ''r'', CHR 0x0D), (CHR ''t'', CHR 0x09)]"

definition with_char :: "char \<Rightarrow> (string \<times> string) option \<Rightarrow> (string \<times> string) option" where
  "with_char c r = (case r of None \<Rightarrow> None | Some (s, rest) \<Rightarrow> Some (c # s, rest))"

fun scan_string :: "string \<Rightarrow> (string \<times> string) option" where
  "scan_string [] = None"
| "scan_string (c # cs) =
     (if c = dquote then Some ([], cs)
      else if c = backslash then
        (case cs of
           [] \<Rightarrow> None
         | e # rest \<Rightarrow>
             if e = CHR ''u'' then
               (case rest of
                  h1 # h2 # h3 # h4 # rest' \<Rightarrow>
                    (case decode_hex4 h1 h2 h3 h4 of
                       Some ch \<Rightarrow> with_char ch (scan_string rest')
                     | None \<Rightarrow> None)
                | _ \<Rightarrow> None)
             else (case map_of simple_escapes e of
                     Some ch \<Rightarrow> with_char ch (scan_string rest)
                   | None \<Rightarrow> None))
      else if map_of control_escapes c \<noteq> None then None
      else with_char c (scan_string cs))"




















section \<open>The memory engine (\<open>core/memory_engine.py\<close>)\<close>

text \<open>
  \<open>MemoryEngine\<close> keeps the log in \<open>self.memory_data\<close> and rewrites the backing file
  after every change. The state below holds the list, the encryption manager's
  \<open>encrypt\<close> (which may raise), and the file system the engine writes to: the contents
  of the files and the paths that cannot be opened for writing.
\<close>

record memory_engine =
  encryption :: "string \<Rightarrow> string option"
  memory_data :: "json list"
  files :: "string \<rightharpoonup> string"
  unwritable :: "string set"

definition memory_file :: string where
  "memory_file = ''memory/memory_log.json''"

definition write_file :: "string \<Rightarrow> string \<Rightarrow> memory_engine \<Rightarrow> py_error + memory_engine" where
  \<comment> \<open>\<open>with open(path, 'w') as f: f.write(content)\<close>\<close>
  "write_file path content st =
     (if path \<in> unwritable st then Inl IOError
      else Inr (st\<lparr>files := (files st)(path \<mapsto> content)\<rparr>))"

definition save_memory :: "memory_engine \<Rightarrow> memory_engine" where
  \<comment> \<open>a failure of the encryption or of the write is logged and swallowed\<close>
  "save_memory st =
     (let data = json_dumps (JArray (memory_data st)) in
      case encryption st data of
        None \<Rightarrow> st
      | Some encrypted_data \<Rightarrow>
          (case write_file memory_file encrypted_data st of
             Inl e \<Rightarrow> st
           | Inr st' \<Rightarrow> st'))"

definition generate_id :: "int \<Rightarrow> memory_engine \<Rightarrow> string" where
  \<comment> \<open>\<open>f"mem_{int(time.time() * 1000)}_{len(self.memory_data)}"\<close>; \<open>now_ms\<close> is the clock
     reading \<open>int(time.time() * 1000)\<close>\<close>
  "generate_id now_ms st =
     ''mem_'' @ str_int now_ms @ ''_'' @ str_int (int (length (memory_data st)))"

definition add_entry ::
  "int \<Rightarrow> string \<Rightarrow> string \<Rightarrow> string \<Rightarrow> string \<Rightarrow> bool \<Rightarrow> (string \<times> json) list option
   \<Rightarrow> memory_engine \<Rightarrow> string option \<times> memory_engine" where
  \<comment> \<open>\<open>now_ms\<close> and \<open>now_iso\<close> are the two clock readings, \<open>time.time()\<close> and
     \<open>datetime.now().isoformat()\<close>; \<open>metadata or {}\<close> is the given dict or the empty one\<close>
  "add_entry now_ms now_iso command result agent success metadata st =
     (let entry = JObject
            [(''id'', JString (generate_id now_ms st)),
             (''timestamp'', JString now_iso),
             (''command'', JString command),
             (''result'', JString result),
             (''agent'', JString agent),
             (''success'', JBool success),
             (''metadata'', JObject (case metadata of None \<Rightarrow> [] | Some m \<Rightarrow> m))];
          st' = save_memory (st\<lparr>memory_data := memory_data st @ [entry]\<rparr>)
      in (Some (generate_id now_ms st), st'))"

definition entry_matches :: "string \<Rightarrow> json \<Rightarrow> py_error + bool" where
  \<comment> \<open>\<open>query_lower in entry.get('command', '').lower() or
       query_lower in entry.get('result', '').lower()\<close>, left to right\<close>
  "entry_matches query_lower entry =
     (case py_get entry ''command'' (JString []) of
        Inl e \<Rightarrow> Inl e
      | Inr c \<Rightarrow>
          (case json_lower c of
             Inl e \<Rightarrow> Inl e
           | Inr cl \<Rightarrow>
               if str_contains query_lower cl then Inr True
               else (case py_get entry ''result'' (JString []) of
                       Inl e \<Rightarrow> Inl e
                     | Inr r \<Rightarrow>
                         (case json_lower r of
                            Inl e \<Rightarrow> Inl e
                          | Inr rl \<Rightarrow> Inr (str_contains query_lower rl)))))"

fun search_loop :: "string \<Rightarrow> int \<Rightarrow> json list \<Rightarrow> json list \<Rightarrow> py_error + json list" where
  \<comment> \<open>the \<open>for\<close> loop of \<open>search_entries\<close> over the reversed log, with its \<open>break\<close>\<close>
  "search_loop query_lower limit [] results = Inr results"
| "search_loop query_lower limit (entry # rest) results =
     (case entry_matches query_lower entry of
        Inl e \<Rightarrow> Inl e
      | Inr False \<Rightarrow> search_loop query_lower limit rest results
      | Inr True \<Rightarrow>
          (if int (length (results @ [entry])) \<ge> limit then Inr (results @ [entry])
           else search_loop query_lower limit rest (results @ [entry])))"

definition search_entries :: "string \<Rightarrow> int \<Rightarrow> memory_engine \<Rightarrow> py_error + json list" where
  "search_entries query limit st = search_loop (py_lower query) limit (rev (memory_data st)) []"

definition get_recent_entries :: "int \<Rightarrow> memory_engine \<Rightarrow> json list" where
  \<comment> \<open>\<open>self.memory_data[-limit:] if self.memory_data else []\<close>\<close>
  "get_recent_entries limit st =
     (if memory_data st \<noteq> [] then py_slice_from (- limit) (memory_data st) else [])"

fun delete_scan :: "string \<Rightarrow> json list \<Rightarrow> py_error + json list option" where
  \<comment> \<open>the loop of \<open>delete_entry\<close>: the list without the first entry of that id, if any\<close>
  "delete_scan entry_id [] = Inr None"
| "delete_scan entry_id (entry # rest) =
     (case py_get entry ''id'' JNull of
        Inl e \<Rightarrow> Inl e
      | Inr i \<Rightarrow>
          if i = JString entry_id then Inr (Some rest)
          else (case delete_scan entry_id rest of
                  Inl e \<Rightarrow> Inl e
                | Inr None \<Rightarrow> Inr None
                | Inr (Some rest') \<Rightarrow> Inr (Some (entry # rest'))))"

definition delete_entry :: "string \<Rightarrow> memory_engine \<Rightarrow> bool \<times> memory_engine" where
  "delete_entry entry_id st =
     (case delete_scan entry_id (memory_data st) of
        Inl e \<Rightarrow> (False, st)
      | Inr None \<Rightarrow> (False, st)
      | Inr (Some data') \<Rightarrow> (True, save_memory (st\<lparr>memory_data := data'\<rparr>)))"

definition clear_memory :: "memory_engine \<Rightarrow> memory_engine" where
  "clear_memory st = save_memory (st\<lparr>memory_data := []\<rparr>)"





subsection \<open>Statistics\<close>

record statistics =
  total_entries :: nat
  successful_entries :: nat
  failed_entries :: int
  success_rate :: rat
  agent_counts :: "(json \<times> nat) list"
  oldest_entry :: "json option"
  newest_entry :: "json option"

fun count_successful :: "json list \<Rightarrow> py_error + nat" where
  \<comment> \<open>\<open>sum(1 for entry in self.memory_data if entry.get('success', False))\<close>\<close>
  "count_successful [] = Inr 0"
| "count_successful (entry # rest) =
     (case py_get entry ''success'' (JBool False) of
        Inl e \<Rightarrow> Inl e
      | Inr v \<Rightarrow>
          (case count_successful rest of
             Inl e \<Rightarrow> Inl e
           | Inr n \<Rightarrow> Inr (if truthy v then Suc n else n)))"

fun hashable :: "json \<Rightarrow> bool" where
  "hashable (JArray xs) = False"
| "hashable (JObject kvs) = False"
| "hashable _ = True"

fun key_norm :: "json \<Rightarrow> json" where
  \<comment> \<open>as dict keys \<open>True\<close> and \<open>1\<close> are the same key, and so are \<open>False\<close> and \<open>0\<close>\<close>
  "key_norm (JBool b) = JInt (if b then 1 else 0)"
| "key_norm v = v"

fun bump_agent :: "json \<Rightarrow> (json \<times> nat) list \<Rightarrow> (json \<times> nat) list" where
  \<comment> \<open>\<open>agents[agent] = agents.get(agent, 0) + 1\<close>\<close>
  "bump_agent a [] = [(a, 1)]"
| "bump_agent a ((k, n) # rest) =
     (if key_norm k = key_norm a then (k, n + 1) # rest else (k, n) # bump_agent a rest)"

fun count_agents :: "json list \<Rightarrow> (json \<times> nat) list \<Rightarrow> py_error + (json \<times> nat) list" where
  "count_agents [] acc = Inr acc"
| "count_agents (entry # rest) acc =
     (case py_get entry ''agent'' (JString ''unknown'') of
        Inl e \<Rightarrow> Inl e
      | Inr a \<Rightarrow> if hashable a then count_agents rest (bump_agent a acc) else Inl TypeError)"

fun py_subscript :: "json \<Rightarrow> string \<Rightarrow> py_error + json" where
  \<comment> \<open>\<open>entry[key]\<close> with a str key\<close>
  "py_subscript (JObject kvs) k = (case map_of kvs k of Some v \<Rightarrow> Inr v | None \<Rightarrow> Inl KeyError)"
| "py_subscript _ k = Inl TypeError"

definition py_truediv :: "nat \<Rightarrow> nat \<Rightarrow> py_error + rat" where
  \<comment> \<open>\<open>a / b\<close>; the quotient is exact here, Python rounds it to a float\<close>
  "py_truediv a b = (if b = 0 then Inl ZeroDivisionError else Inr (of_nat a / of_nat b))"

definition success_rate_of :: "nat \<Rightarrow> nat \<Rightarrow> py_error + rat" where
  \<comment> \<open>\<open>(successful_entries / total_entries * 100) if total_entries > 0 else 0\<close>\<close>
  "success_rate_of successful n_total =
     (if n_total > 0 then
        (case py_truediv successful n_total of Inl e \<Rightarrow> Inl e | Inr q \<Rightarrow> Inr (q * 100))
      else Inr 0)"

definition timestamp_of :: "json list \<Rightarrow> py_error + json option" where
  \<comment> \<open>\<open>entries[0]['timestamp'] if entries else None\<close>\<close>
  "timestamp_of entries =
     (case entries of
        [] \<Rightarrow> Inr None
      | entry # _ \<Rightarrow>
          (case py_subscript entry ''timestamp'' of Inl e \<Rightarrow> Inl e | Inr v \<Rightarrow> Inr (Some v)))"

definition get_statistics :: "memory_engine \<Rightarrow> statistics option" where
  \<comment> \<open>any exception is caught and the empty dict returned: \<open>None\<close> here\<close>
  "get_statistics st =
     (let data = memory_data st; n_total = length data in
      case count_successful data of
        Inl e \<Rightarrow> None
      | Inr successful \<Rightarrow>
      (case count_agents data [] of
        Inl e \<Rightarrow> None
      | Inr agents \<Rightarrow>
      (case success_rate_of successful n_total of
        Inl e \<Rightarrow> None
      | Inr rate \<Rightarrow>
      (case timestamp_of data of
        Inl e \<Rightarrow> None
      | Inr oldest \<Rightarrow>
      (case timestamp_of (rev data) of
        Inl e \<Rightarrow> None
      | Inr newest \<Rightarrow>
          Some \<lparr>total_entries = n_total,
                successful_entries = successful,
                failed_entries = int n_total - int successful,
                success_rate = rate,
                agent_counts = agents,
                oldest_entry = oldest,
                newest_entry = newest\<rparr>)))))"

subsection \<open>Runs of log operations\<close>

text \<open>
  A caller's sequence of \<open>add_entry\<close>, \<open>delete_entry\<close> and \<open>clear_memory\<close> calls; an
  \<open>Add\<close> carries the clock readings of its call. \<open>run_ops\<close> collects the ids that the
  \<open>add_entry\<close> calls return.
\<close>

datatype mem_op =
    Add int string string string string bool
  | Delete string
  | Clear

fun run_ops :: "mem_op list \<Rightarrow> memory_engine \<Rightarrow> string option list \<times> memory_engine" where
  "run_ops [] st = ([], st)"
| "run_ops (Add now_ms now_iso command result agent success # ops) st =
     (case add_entry now_ms now_iso command result agent success None st of
        (i, st') \<Rightarrow> (case run_ops ops st' of (ids, st'') \<Rightarrow> (i # ids, st'')))"
| "run_ops (Delete entry_id # ops) st = run_ops ops (snd (delete_entry entry_id st))"
| "run_ops (Clear # ops) st = run_ops ops (clear_memory st)"

definition fresh_engine :: memory_engine where
  \<comment> \<open>an engine whose log is empty, with an encryption that leaves the text as it is\<close>
  "fresh_engine = \<lparr>encryption = Some, memory_data = [], files = Map.empty, unwritable = {}\<rparr>"

subsection \<open>What a search result is, in the words of the specification\<close>

definition entry_text :: "string \<Rightarrow> json \<Rightarrow> string option" where
  \<comment> \<open>the text of a field of an entry, the empty text when the entry lacks the field\<close>
  "entry_text k entry =
     (case py_get entry k (JString []) of Inr (JString s) \<Rightarrow> Some s | _ \<Rightarrow> None)"

definition text_mentions :: "string \<Rightarrow> string option \<Rightarrow> bool" where
  "text_mentions q t = (case t of Some s \<Rightarrow> sublist (py_lower q) (py_lower s) | None \<Rightarrow> False)"

definition mentions :: "string \<Rightarrow> json \<Rightarrow> bool" where
  \<comment> \<open>the entry contains \<open>q\<close>, case-insensitively, in its command or in its result\<close>
  "mentions q entry =
     (text_mentions q (entry_text ''command'' entry) \<or> text_mentions q (entry_text ''result'' entry))"

definition searchable :: "json \<Rightarrow> bool" where
  \<comment> \<open>a dict whose command and result, where present, are texts\<close>
  "searchable entry = (entry_text ''command'' entry \<noteq> None \<and> entry_text ''result'' entry \<noteq> None)"


section \<open>Properties of the memory engine\<close>

lemma memory_data_save_memory [simp]: "memory_data (save_memory st) = memory_data st"
  by (simp add: save_memory_def write_file_def Let_def split: option.splits sum.splits if_splits)

lemma py_slice_from_zero: "py_slice_from 0 xs = xs"
  by (simp add: py_slice_from_def)

lemma str_contains_iff_sublist: "str_contains xs ys \<longleftrightarrow> sublist xs ys"
  by (induction ys) (auto simp: sublist_Cons_right)

text \<open>
  Claim C10. For every log state, \<open>get_recent_entries\<close> with \<open>limit == 0\<close> returns the
  entire log, all entries in insertion order, not an empty list: the slice
  \<open>memory_data[-0:]\<close> is the whole list.
\<close>

theorem get_recent_entries_zero: "get_recent_entries 0 st = memory_data st"
  by (simp add: get_recent_entries_def py_slice_from_zero)

text \<open>
  Claim C9. After \<open>clear_memory()\<close>, \<open>get_statistics()\<close> returns a dict with
  \<open>total_entries == 0\<close> and \<open>success_rate == 0\<close>; with no entries the success rate is
  the constant 0 and the division is not evaluated, whatever the count of successes.
\<close>

theorem clear_memory_then_statistics:
  "(\<exists>s. get_statistics (clear_memory st) = Some s \<and> total_entries s = 0 \<and> success_rate s = 0)
   \<and> success_rate_of successful 0 = Inr 0"
  by (simp add: get_statistics_def clear_memory_def success_rate_of_def timestamp_of_def)

text \<open>
  Claim C4 asks that the ids returned by \<open>add_entry\<close> are pairwise unique under any
  interleaving with \<open>delete_entry\<close> and \<open>clear_memory\<close>. \<open>generate_id\<close> numbers an entry
  with the current length of the log, which a deletion lowers: three entries added
  within one millisecond, with the first deleted before the third is added, give the
  third the id of the second, which is still in the log.
\<close>

theorem generate_id_repeats_after_delete:
  "fst (run_ops [Add 1762250000000 ''2025-11-04T10:33:20'' ''a'' ''r'' ''secops'' True,
                 Add 1762250000000 ''2025-11-04T10:33:20'' ''b'' ''r'' ''secops'' True,
                 Delete ''mem_1762250000000_0'',
                 Add 1762250000000 ''2025-11-04T10:33:20'' ''c'' ''r'' ''secops'' True]
          fresh_engine)
   = [Some ''mem_1762250000000_0'', Some ''mem_1762250000000_1'', Some ''mem_1762250000000_1'']"
  by (simp add: add_entry_def generate_id_def delete_entry_def fresh_engine_def str_int_def
      str_nat.simps digit_char_def Let_def)


subsection \<open>Searching the log\<close>

text \<open>A small log for the concrete runs below: three entries added to an empty engine.\<close>

definition demo_log :: memory_engine where
  "demo_log = snd (run_ops
     [Add 1762250000000 ''2025-11-04T10:33:20'' ''scan Foo.example'' ''done'' ''secops'' True,
      Add 1762250000001 ''2025-11-04T10:33:21'' ''status'' ''idle'' ''orchestrator'' True,
      Add 1762250000002 ''2025-11-04T10:33:22'' ''report'' ''no FOO found'' ''dataminer'' True]
     fresh_engine)"

definition demo_entry :: "string \<Rightarrow> string \<Rightarrow> string \<Rightarrow> string \<Rightarrow> string \<Rightarrow> json" where
  "demo_entry i t c r a = JObject [(''id'', JString i), (''timestamp'', JString t),
     (''command'', JString c), (''result'', JString r), (''agent'', JString a),
     (''success'', JBool True), (''metadata'', JObject [])]"

lemma memory_data_demo_log:
  "memory_data demo_log =
    [demo_entry ''mem_1762250000000_0'' ''2025-11-04T10:33:20'' ''scan Foo.example'' ''done'' ''secops'',
     demo_entry ''mem_1762250000001_1'' ''2025-11-04T10:33:21'' ''status'' ''idle'' ''orchestrator'',
     demo_entry ''mem_1762250000002_2'' ''2025-11-04T10:33:22'' ''report'' ''no FOO found'' ''dataminer'']"
  by (simp add: demo_log_def demo_entry_def add_entry_def generate_id_def fresh_engine_def str_int_def
      str_nat.simps digit_char_def Let_def)

lemmas text_eval = py_lower_def lower_char_def upper_chars_def lower_chars_def
  is_space_def space_chars_def

lemma searchable_demo_entry: "searchable (demo_entry i t c r a)"
  by (simp add: searchable_def entry_text_def demo_entry_def)

lemma mentions_demo_entry:
  "mentions q (demo_entry i t c r a)
     \<longleftrightarrow> str_contains (py_lower q) (py_lower c) \<or> str_contains (py_lower q) (py_lower r)"
  by (simp add: mentions_def text_mentions_def entry_text_def demo_entry_def str_contains_iff_sublist)

lemma entry_matches_True_mentions:
  "entry_matches (py_lower q) e = Inr True \<Longrightarrow> mentions q e"
  by (cases e)
     (auto simp: entry_matches_def mentions_def entry_text_def text_mentions_def
        str_contains_iff_sublist
        split: sum.splits option.splits json.splits if_splits elim!: json_lower.elims)

lemma entry_matches_searchable:
  "searchable e \<Longrightarrow> entry_matches (py_lower q) e = Inr (mentions q e)"
  by (cases e)
     (auto simp: entry_matches_def mentions_def entry_text_def text_mentions_def searchable_def
        str_contains_iff_sublist
        split: sum.splits option.splits json.splits if_splits)

lemma search_loop_sound:
  "search_loop ql n es acc = Inr rs \<Longrightarrow> 1 \<le> n \<Longrightarrow> int (length acc) < n \<Longrightarrow>
   \<exists>ms. rs = acc @ ms \<and> subseq ms es \<and> (\<forall>e\<in>set ms. entry_matches ql e = Inr True)
        \<and> int (length rs) \<le> n"
proof (induction es arbitrary: acc)
  case Nil
  then show ?case by simp
next
  case (Cons e es)
  show ?case
  proof (cases "entry_matches ql e")
    case (Inl err)
    with Cons.prems show ?thesis by simp
  next
    case (Inr b)
    show ?thesis
    proof (cases b)
      case False
      with Inr Cons.prems have "search_loop ql n es acc = Inr rs" by simp
      from Cons.IH[OF this Cons.prems(2,3)] obtain ms where
        "rs = acc @ ms" "subseq ms es" "\<forall>e\<in>set ms. entry_matches ql e = Inr True"
        "int (length rs) \<le> n" by blast
      then show ?thesis by (intro exI[of _ ms]) (auto intro: subseq_Cons')
    next
      case True
      show ?thesis
      proof (cases "n \<le> int (length (acc @ [e]))")
        case stop: True
        with True Inr Cons.prems have "rs = acc @ [e]" by simp
        with True Inr Cons.prems show ?thesis by (intro exI[of _ "[e]"]) auto
      next
        case go: False
        with True Inr Cons.prems have "search_loop ql n es (acc @ [e]) = Inr rs" by simp
        moreover from go have "int (length (acc @ [e])) < n" by simp
        ultimately obtain ms where
          "rs = (acc @ [e]) @ ms" "subseq ms es" "\<forall>e\<in>set ms. entry_matches ql e = Inr True"
          "int (length rs) \<le> n" using Cons.IH Cons.prems(2) by blast
        with True Inr show ?thesis by (intro exI[of _ "e # ms"]) auto
      qed
    qed
  qed
qed

lemma search_loop_searchable:
  "\<forall>e\<in>set es. searchable e \<Longrightarrow> int (length acc) < n \<Longrightarrow>
   search_loop (py_lower q) n es acc = Inr (take (nat n) (acc @ filter (mentions q) es))"
proof (induction es arbitrary: acc)
  case Nil
  then show ?case by simp
next
  case (Cons e es)
  then have m: "entry_matches (py_lower q) e = Inr (mentions q e)"
    by (simp add: entry_matches_searchable)
  show ?case
  proof (cases "mentions q e")
    case False
    with m Cons show ?thesis by simp
  next
    case True
    show ?thesis
    proof (cases "n \<le> int (length (acc @ [e]))")
      case stop: True
      with Cons.prems(2) have "nat n = Suc (length acc)" by simp
      with True m stop show ?thesis by simp
    next
      case go: False
      then have "int (length (acc @ [e])) < n" by simp
      with Cons.IH[of "acc @ [e]"] Cons.prems(1) True m go show ?thesis by simp
    qed
  qed
qed

lemma search_loop_stops:
  "\<forall>e\<in>set pre. searchable e \<Longrightarrow> int (length acc) < n \<Longrightarrow>
   n \<le> int (length acc + length (filter (mentions q) pre)) \<Longrightarrow>
   search_loop (py_lower q) n (pre @ post) acc = search_loop (py_lower q) n pre acc"
proof (induction pre arbitrary: acc)
  case Nil
  then show ?case by simp
next
  case (Cons e es)
  then have m: "entry_matches (py_lower q) e = Inr (mentions q e)"
    by (simp add: entry_matches_searchable)
  show ?case
  proof (cases "mentions q e")
    case False
    with m Cons show ?thesis by simp
  next
    case True
    show ?thesis
    proof (cases "n \<le> int (length (acc @ [e]))")
      case stop: True
      with True m show ?thesis by simp
    next
      case go: False
      then have "int (length (acc @ [e])) < n" by simp
      moreover from Cons.prems(3) True
      have "n \<le> int (length (acc @ [e]) + length (filter (mentions q) es))" by simp
      ultimately have "search_loop (py_lower q) n (es @ post) (acc @ [e])
          = search_loop (py_lower q) n es (acc @ [e])"
        using Cons.IH[of "acc @ [e]"] Cons.prems(1) by simp
      with True m go show ?thesis by simp
    qed
  qed
qed


text \<open>
  Claim C7, as the code has it. For every query \<open>q\<close> and every limit \<open>n\<close> of at least
  1: a search that returns gives at most \<open>n\<close> entries, in most-recent-first order (a
  subsequence of the reversed log), each containing \<open>q\<close> case-insensitively in its
  command or its result. On a log of well-formed entries the search returns, and its
  result is the first \<open>n\<close> matching entries of the reversed log. The scan stops at the
  \<open>n\<close>-th match: entries older than the log that holds \<open>n\<close> matches are not examined,
  whatever they are.
\<close>

theorem search_entries_bounded:
  assumes "1 \<le> n"
  shows "(\<forall>rs. search_entries q n st = Inr rs \<longrightarrow>
            int (length rs) \<le> n \<and> subseq rs (rev (memory_data st)) \<and> (\<forall>e\<in>set rs. mentions q e))
       \<and> ((\<forall>e\<in>set (memory_data st). searchable e) \<longrightarrow>
            search_entries q n st = Inr (take (nat n) (filter (mentions q) (rev (memory_data st))))
            \<and> (n \<le> int (length (filter (mentions q) (memory_data st))) \<longrightarrow>
                 (\<forall>older. search_entries q n (st\<lparr>memory_data := older @ memory_data st\<rparr>)
                    = search_entries q n st)))"
proof (intro conjI allI impI)
  fix rs assume r: "search_entries q n st = Inr rs"
  then have "search_loop (py_lower q) n (rev (memory_data st)) [] = Inr rs"
    by (simp add: search_entries_def)
  from search_loop_sound[OF this assms] assms obtain ms where
    ms: "rs = [] @ ms" "subseq ms (rev (memory_data st))"
      "\<forall>e\<in>set ms. entry_matches (py_lower q) e = Inr True" "int (length rs) \<le> n"
    by auto
  show "int (length rs) \<le> n" by (rule ms(4))
  show "subseq rs (rev (memory_data st))" using ms(1,2) by simp
  show "\<forall>e\<in>set rs. mentions q e" using ms(1,3) by (auto intro: entry_matches_True_mentions)
next
  assume s: "\<forall>e\<in>set (memory_data st). searchable e"
  then have s': "\<forall>e\<in>set (rev (memory_data st)). searchable e" by simp
  from search_loop_searchable[OF s', of "[]" n q] assms
  show "search_entries q n st = Inr (take (nat n) (filter (mentions q) (rev (memory_data st))))"
    by (simp add: search_entries_def)
  fix older
  assume "n \<le> int (length (filter (mentions q) (memory_data st)))"
  then have "n \<le> int (length ([]::json list) + length (filter (mentions q) (rev (memory_data st))))"
    by (simp flip: rev_filter)
  from search_loop_stops[OF s' _ this, of "rev older"] assms
  show "search_entries q n (st\<lparr>memory_data := older @ memory_data st\<rparr>) = search_entries q n st"
    by (simp add: search_entries_def)
qed

theorem search_entries_bounded_witness:
  "search_entries ''foo'' 1 demo_log = Inr [last (memory_data demo_log)]
   \<and> int (length [last (memory_data demo_log)]) \<le> 1
   \<and> subseq [last (memory_data demo_log)] (rev (memory_data demo_log))
   \<and> mentions ''foo'' (last (memory_data demo_log))
   \<and> search_entries ''foo'' 1 (demo_log\<lparr>memory_data := [JNull] @ memory_data demo_log\<rparr>)
       = search_entries ''foo'' 1 demo_log"
proof -
  have s: "\<forall>e\<in>set (memory_data demo_log). searchable e"
    by (simp add: memory_data_demo_log searchable_demo_entry)
  have f: "filter (mentions ''foo'') (rev (memory_data demo_log))
      = [last (memory_data demo_log), hd (memory_data demo_log)]"
    by (simp add: memory_data_demo_log mentions_demo_entry text_eval)
  have c: "(1::int) \<le> int (length (filter (mentions ''foo'') (memory_data demo_log)))"
    by (simp add: memory_data_demo_log mentions_demo_entry text_eval)
  have one: "(1::int) \<le> 1" by simp
  note h = search_entries_bounded[OF one, of "''foo''" demo_log]
  from h s have r: "search_entries ''foo'' 1 demo_log
      = Inr (take (nat 1) (filter (mentions ''foo'') (rev (memory_data demo_log))))"
    by blast
  from h s c have o: "search_entries ''foo'' 1 (demo_log\<lparr>memory_data := [JNull] @ memory_data demo_log\<rparr>)
      = search_entries ''foo'' 1 demo_log"
    by blast
  from r f have r': "search_entries ''foo'' 1 demo_log = Inr [last (memory_data demo_log)]"
    by simp
  from h r' have "int (length [last (memory_data demo_log)]) \<le> 1
      \<and> subseq [last (memory_data demo_log)] (rev (memory_data demo_log))
      \<and> (\<forall>e\<in>set [last (memory_data demo_log)]. mentions ''foo'' e)"
    by blast
  with r' o show ?thesis by simp
qed


text \<open>
  The claim as stated, for every limit, fails at \<open>n = 0\<close>: the loop appends a match
  before it compares the length with the limit, so a limit of zero returns the newest
  match.
\<close>

theorem search_entries_limit_zero_counterexample:
  "search_entries ''foo'' 0 demo_log = Inr [last (memory_data demo_log)]
   \<and> \<not> int (length [last (memory_data demo_log)]) \<le> 0"
  by (simp add: search_entries_def memory_data_demo_log entry_matches_def demo_entry_def text_eval)



section \<open>Regular expressions, as the parser uses them\<close>

text \<open>
  The patterns of \<open>core/command_parser.py\<close> are built from literals, character
  classes, \<open>.\<close>, \<open>\b\<close>, sequence, alternation, greedy repetition and one capturing
  group. \<open>rx_match\<close> is a backtracking matcher: from a position it returns every way
  the pattern can match there, in the order in which Python's \<open>re\<close> tries them, so
  the head of the list is the match \<open>re\<close> reports. A position is the character
  before it (for \<open>\b\<close>), the rest of the text and the text of the group, once set.
  The flag \<open>ic\<close> is \<open>re.IGNORECASE\<close>.
\<close>

datatype regex =
    Eps
  | Lit char
  | OneOf string
  | NoneOf string
  | AnyChar
  | WordBoundary
  | Seq regex regex
  | Alt regex regex
  | Star regex
  | Group regex

type_synonym rx_state = "char option \<times> string \<times> string option"

definition word_chars :: string where
  \<comment> \<open>the characters of \<open>\w\<close>\<close>
  "word_chars = lower_chars @ upper_chars @ digit_chars @ ''_''"

definition is_word :: "char option \<Rightarrow> bool" where
  "is_word c = (case c of None \<Rightarrow> False | Some x \<Rightarrow> x \<in> set word_chars)"

definition in_class :: "bool \<Rightarrow> string \<Rightarrow> char \<Rightarrow> bool" where
  "in_class ic cs x =
     (x \<in> set cs \<or> (ic \<and> (lower_char x \<in> set cs \<or> upper_char x \<in> set cs)))"

definition step_char :: "(char \<Rightarrow> bool) \<Rightarrow> rx_state \<Rightarrow> rx_state list" where
  "step_char P st =
     (case st of (prev, rest, g) \<Rightarrow>
        (case rest of [] \<Rightarrow> [] | x # xs \<Rightarrow> if P x then [(Some x, xs, g)] else []))"

definition rest_of :: "rx_state \<Rightarrow> string" where
  "rest_of st = fst (snd st)"

definition consumed :: "rx_state \<Rightarrow> rx_state \<Rightarrow> string" where
  \<comment> \<open>the text between two positions\<close>
  "consumed st st' = take (length (rest_of st) - length (rest_of st')) (rest_of st)"

function rx_match :: "bool \<Rightarrow> regex \<Rightarrow> rx_state \<Rightarrow> rx_state list" where
  "rx_match ic Eps st = [st]"
| "rx_match ic (Lit c) st =
     step_char (\<lambda>x. if ic then lower_char x = lower_char c else x = c) st"
| "rx_match ic (OneOf cs) st = step_char (in_class ic cs) st"
| "rx_match ic (NoneOf cs) st = step_char (\<lambda>x. \<not> in_class ic cs x) st"
| "rx_match ic AnyChar st = step_char (\<lambda>x. x \<noteq> CHR 0x0A) st"
| "rx_match ic WordBoundary st =
     (case st of (prev, rest, g) \<Rightarrow>
        if is_word prev \<noteq> is_word (case rest of [] \<Rightarrow> None | x # _ \<Rightarrow> Some x)
        then [st] else [])"
| "rx_match ic (Seq r1 r2) st = concat (map (rx_match ic r2) (rx_match ic r1 st))"
| "rx_match ic (Alt r1 r2) st = rx_match ic r1 st @ rx_match ic r2 st"
| "rx_match ic (Star r) st =
     concat (map (\<lambda>st'. if length (rest_of st') < length (rest_of st)
                          then rx_match ic (Star r) st' else [])
                 (rx_match ic r st)) @ [st]"
| "rx_match ic (Group r) st =
     map (\<lambda>st'. (fst st', rest_of st', Some (consumed st st'))) (rx_match ic r st)"
  by pat_completeness auto
termination
  by (relation "inv_image (measure size <*lex*> measure length) (\<lambda>(ic, r, st). (r, rest_of st))")
     auto

text \<open>
  A repetition goes round again only after an iteration that consumed a character,
  as \<open>re\<close> does; every repeated pattern of the parser consumes one.
\<close>

definition Opt :: "regex \<Rightarrow> regex" where
  \<comment> \<open>\<open>r?\<close>\<close>
  "Opt r = Alt r Eps"

definition Plus :: "regex \<Rightarrow> regex" where
  \<comment> \<open>\<open>r+\<close>\<close>
  "Plus r = Seq r (Star r)"

definition lit :: "string \<Rightarrow> regex" where
  "lit s = foldr (\<lambda>c r. Seq (Lit c) r) s Eps"

fun seqs :: "regex list \<Rightarrow> regex" where
  "seqs [] = Eps"
| "seqs [r] = r"
| "seqs (r # rs) = Seq r (seqs rs)"

fun alts :: "regex list \<Rightarrow> regex" where
  "alts [] = NoneOf []"
| "alts [r] = r"
| "alts (r # rs) = Alt r (alts rs)"

definition any_of :: "string list \<Rightarrow> regex" where
  \<comment> \<open>\<open>(?:w1|w2|...)\<close>\<close>
  "any_of ws = alts (map lit ws)"

definition spaces :: regex where
  \<comment> \<open>\<open>\s+\<close>\<close>
  "spaces = Plus (OneOf space_chars)"

definition digit :: regex where
  \<comment> \<open>\<open>\d\<close>\<close>
  "digit = OneOf digit_chars"

fun rx_search :: "bool \<Rightarrow> regex \<Rightarrow> char option \<Rightarrow> string \<Rightarrow> (string \<times> rx_state) option" where
  \<comment> \<open>the leftmost match: the text from its start, and the position of its end\<close>
  "rx_search ic r prev [] =
     (case rx_match ic r (prev, [], None) of [] \<Rightarrow> None | e # _ \<Rightarrow> Some ([], e))"
| "rx_search ic r prev (c # cs) =
     (case rx_match ic r (prev, c # cs, None) of
        [] \<Rightarrow> rx_search ic r (Some c) cs
      | e # _ \<Rightarrow> Some (c # cs, e))"

definition re_search :: "bool \<Rightarrow> regex \<Rightarrow> string \<Rightarrow> (string \<times> rx_state) option" where
  \<comment> \<open>\<open>re.search(pattern, text)\<close>\<close>
  "re_search ic r text = rx_search ic r None text"

definition group0 :: "string \<times> rx_state \<Rightarrow> string" where
  \<comment> \<open>\<open>match.group(0)\<close>\<close>
  "group0 m = take (length (fst m) - length (rest_of (snd m))) (fst m)"

definition group1 :: "string \<times> rx_state \<Rightarrow> string" where
  \<comment> \<open>\<open>match.group(1)\<close>; the group of each pattern below takes part in every match\<close>
  "group1 m = (case snd (snd (snd m)) of Some g \<Rightarrow> g | None \<Rightarrow> [])"

fun rx_findall ::
  "bool \<Rightarrow> regex \<Rightarrow> (string \<times> rx_state \<Rightarrow> string) \<Rightarrow> char option \<Rightarrow> string \<Rightarrow> nat \<Rightarrow> string list" where
  \<comment> \<open>the matches from left to right, none overlapping another: after a match of \<open>n\<close>
     characters the next \<open>n - 1\<close> positions are skipped\<close>
  "rx_findall ic r sel prev [] skip =
     (if skip > 0 then []
      else (case rx_match ic r (prev, [], None) of [] \<Rightarrow> [] | e # _ \<Rightarrow> [sel ([], e)]))"
| "rx_findall ic r sel prev (c # cs) skip =
     (if skip > 0 then rx_findall ic r sel (Some c) cs (skip - 1)
      else (case rx_match ic r (prev, c # cs, None) of
              [] \<Rightarrow> rx_findall ic r sel (Some c) cs 0
            | e # _ \<Rightarrow>
                sel (c # cs, e)
                # rx_findall ic r sel (Some c) cs (length (group0 (c # cs, e)) - 1)))"

definition re_findall :: "regex \<Rightarrow> (string \<times> rx_state \<Rightarrow> string) \<Rightarrow> string \<Rightarrow> string list" where
  \<comment> \<open>\<open>re.findall(pattern, text)\<close>: the texts of the group if the pattern has one,
     of the whole matches otherwise (\<open>sel\<close>)\<close>
  "re_findall r sel text = rx_findall False r sel None text 0"


section \<open>The command parser (\<open>core/command_parser.py\<close>)\<close>

text \<open>
  A parsed command is a dict with fixed keys; the parser sets every one of them, and
  \<open>error\<close> only on an error command. Its parameters are JSON values: lists of
  texts, \<open>True\<close> flags and integers. The confidence is a Python float: the model
  keeps the exact decimal that the float approximates.
\<close>

record command =
  original_text :: string
  command_type :: string
  agent :: string
  target :: string
  parameters :: "(string \<times> json) list"
  confidence :: rat
  timestamp :: string
  error :: "string option"

definition coding_subjects :: "string list" where
  "coding_subjects =
     [''flask'', ''web'', ''python'', ''script'', ''api'', ''rest'', ''html'', ''website'']"

definition command_patterns :: "(string \<times> regex list) list" where
  \<comment> \<open>\<open>self.command_patterns\<close>, in the order of the dict\<close>
  "command_patterns =
    [(''codegen'',
       [seqs [any_of [''generate'', ''create'', ''make'', ''build''], spaces,
              Opt (Seq (lit ''a'') spaces), any_of coding_subjects],
        seqs [any_of [''write'', ''code''], spaces,
              Opt (Seq (lit ''a'') spaces), any_of coding_subjects],
        seqs [any_of [''develop'', ''program''], spaces,
              Opt (Seq (lit ''a'') spaces), any_of coding_subjects]]),
     (''secops'',
       [seqs [any_of [''scan'', ''check'', ''test'', ''audit''], spaces,
              Opt (Seq (lit ''for'') spaces),
              any_of [''vulnerabilities'', ''security'', ''ports'', ''network'']],
        seqs [any_of [''security'', ''penetration'', ''vulnerability''], spaces,
              any_of [''scan'', ''test'', ''audit'']],
        seqs [any_of [''port'', ''network''], spaces, any_of [''scan'', ''check'', ''test'']],
        seqs [any_of [''web'', ''http'', ''https''], spaces,
              any_of [''security'', ''vulnerability''], spaces, any_of [''scan'', ''check'']]]),
     (''advanced_secops'',
       [seqs [any_of [''penetrate'', ''hack'', ''exploit'', ''breach''], spaces,
              any_of [''into'', ''to'', ''the''], spaces],
        seqs [any_of [''advanced'', ''deep'', ''comprehensive''], spaces,
              any_of [''penetration'', ''security'', ''hacking'']],
        seqs [alts [seqs [lit ''zero'', Opt AnyChar, lit ''day''], lit ''exploit'',
                    lit ''vulnerability''], spaces,
              any_of [''scan'', ''test'', ''attack'']],
        seqs [any_of [''persistent'', ''backdoor'', ''covert''], spaces,
              any_of [''access'', ''connection'', ''control'']]]),
     (''network_intelligence'',
       [seqs [any_of [''monitor'', ''surveillance'', ''intercept''], spaces,
              any_of [''network'', ''traffic'', ''communication'']],
        seqs [any_of [''capture'', ''analyze'', ''decode''], spaces,
              any_of [''packets'', ''traffic'', ''protocols'']],
        seqs [any_of [''device'', ''inventory'', ''discovery''], spaces,
              any_of [''network'', ''devices'', ''systems'']],
        seqs [any_of [''intelligence'', ''reconnaissance'', ''gathering''], spaces,
              any_of [''network'', ''system'']]]),
     (''remote_control'',
       [seqs [any_of [''connect'', ''establish'', ''control''], spaces,
              any_of [''remote'', ''to'', ''connection'']],
        seqs [any_of [''execute'', ''run'', ''command''], spaces,
              any_of [''remote'', ''on'', ''system'']],
        seqs [any_of [''deploy'', ''payload'', ''backdoor''], spaces,
              any_of [''to'', ''on'', ''system'']],
        seqs [any_of [''monitor'', ''surveillance''], spaces,
              any_of [''remote'', ''system'', ''device'']]]),
     (''dataminer'',
       [seqs [any_of [''analyze'', ''process'', ''mine'', ''extract''], spaces,
              any_of [''data'', ''dataset'', ''file'']],
        seqs [any_of [''data'', ''statistical''], spaces,
              any_of [''analysis'', ''processing'', ''mining'']],
        seqs [any_of [''visualize'', ''plot'', ''chart''], spaces, any_of [''data'', ''dataset'']],
        seqs [any_of [''generate'', ''create''], spaces,
              any_of [''statistics'', ''stats'', ''report''], spaces,
              any_of [''for'', ''from'']]])]"

definition quote_chars :: string where
  \<comment> \<open>the class \<open>["\']\<close>\<close>
  "quote_chars = [dquote, CHR 0x27]"

definition file_path_pattern :: regex where
  \<comment> \<open>\<open>["\']([^"\']*\.(?:csv|xlsx|xls|json|txt|py|html|js|css))["\']\<close>\<close>
  "file_path_pattern =
     seqs [OneOf quote_chars,
           Group (seqs [Star (NoneOf quote_chars), Lit CHR ''.'',
                        any_of [''csv'', ''xlsx'', ''xls'', ''json'', ''txt'', ''py'', ''html'',
                                ''js'', ''css'']]),
           OneOf quote_chars]"

definition url_pattern :: regex where
  \<comment> \<open>\<open>https?://[^\s]+\<close>\<close>
  "url_pattern = seqs [lit ''http'', Opt (Lit CHR ''s''), lit ''://'', Plus (NoneOf space_chars)]"

definition digits_1_3 :: regex where
  \<comment> \<open>\<open>\d{1,3}\<close>, the longest first\<close>
  "digits_1_3 = Seq digit (Opt (Seq digit (Opt digit)))"

definition ip_address_pattern :: regex where
  \<comment> \<open>\<open>\b(?:\d{1,3}\.){3}\d{1,3}\b\<close>\<close>
  "ip_address_pattern =
     seqs [WordBoundary,
           Seq digits_1_3 (Lit CHR ''.''), Seq digits_1_3 (Lit CHR ''.''),
           Seq digits_1_3 (Lit CHR ''.''), digits_1_3, WordBoundary]"

definition hostname_pattern :: regex where
  \<comment> \<open>\<open>(?:scan|check|test)\s+(?:the\s+)?([a-zA-Z0-9.-]+)\<close>\<close>
  "hostname_pattern =
     seqs [any_of [''scan'', ''check'', ''test''], spaces, Opt (Seq (lit ''the'') spaces),
           Group (Plus (OneOf (lower_chars @ upper_chars @ digit_chars @ ''.-'')))]"

definition target_pattern :: regex where
  \<comment> \<open>\<open>(?:for|on|at)\s+([a-zA-Z0-9._-]+)\<close>\<close>
  "target_pattern =
     seqs [any_of [''for'', ''on'', ''at''], spaces,
           Group (Plus (OneOf (lower_chars @ upper_chars @ digit_chars @ ''._-'')))]"

definition matches :: "bool \<Rightarrow> regex \<Rightarrow> string \<Rightarrow> bool" where
  \<comment> \<open>\<open>re.search\<close> used as a condition\<close>
  "matches ic r text = (re_search ic r text \<noteq> None)"

fun first_agent :: "(string \<times> regex list) list \<Rightarrow> string \<Rightarrow> string option" where
  \<comment> \<open>the two nested loops of \<open>_identify_command_type\<close>\<close>
  "first_agent [] text = None"
| "first_agent ((name, patterns) # rest) text =
     (if list_ex (\<lambda>p. matches True p text) patterns then Some name
      else first_agent rest text)"

definition get_command_type :: "string \<Rightarrow> string \<Rightarrow> string" where
  \<comment> \<open>\<open>_get_command_type(text, agent)\<close>; \<open>has w\<close> is \<open>w in text\<close>\<close>
  "get_command_type text agent_name =
    (let has = (\<lambda>w. str_contains w text) in
     if agent_name = ''codegen'' then
       (if has ''flask'' \<or> has ''web'' then ''generate_web_app''
        else if has ''python'' \<or> has ''script'' then ''generate_script''
        else if has ''api'' \<or> has ''rest'' then ''generate_api''
        else if has ''html'' \<or> has ''website'' then ''generate_website''
        else ''generate_code'')
     else if agent_name = ''secops'' then
       (if has ''port'' then ''port_scan''
        else if has ''network'' then ''network_scan''
        else if has ''web'' \<or> has ''http'' then ''web_security_scan''
        else ''security_scan'')
     else if agent_name = ''advanced_secops'' then
       (if has ''penetrate'' \<or> has ''hack'' then ''penetration_test''
        else if has ''exploit'' then ''exploit_target''
        else if has ''persistent'' \<or> has ''backdoor'' then ''establish_persistence''
        else ''advanced_security_scan'')
     else if agent_name = ''network_intelligence'' then
       (if has ''monitor'' \<or> has ''surveillance'' then ''network_monitoring''
        else if has ''intercept'' \<or> has ''capture'' then ''packet_interception''
        else if has ''analyze'' \<or> has ''intelligence'' then ''traffic_analysis''
        else if has ''device'' \<or> has ''inventory'' then ''device_discovery''
        else ''comprehensive_intelligence'')
     else if agent_name = ''remote_control'' then
       (if has ''connect'' \<or> has ''establish'' then ''establish_connection''
        else if has ''control'' \<or> has ''command'' then ''execute_remote_command''
        else if has ''monitor'' \<or> has ''surveillance'' then ''remote_monitoring''
        else if has ''payload'' \<or> has ''deploy'' then ''deploy_payload''
        else ''remote_system_control'')
     else if agent_name = ''dataminer'' then
       (if has ''analyze'' then ''analyze_data''
        else if has ''extract'' \<or> has ''mine'' then ''extract_data''
        else if has ''visualize'' \<or> has ''plot'' then ''visualize_data''
        else if has ''statistics'' \<or> has ''stats'' then ''generate_statistics''
        else ''process_data'')
     else ''execute'')"

definition identify_command_type :: "string \<Rightarrow> string \<times> string" where
  \<comment> \<open>the command type and the agent\<close>
  "identify_command_type text =
     (let text_lower = py_lower text in
      case first_agent command_patterns text_lower of
        Some agent_name \<Rightarrow> (get_command_type text_lower agent_name, agent_name)
      | None \<Rightarrow> (''general'', ''orchestrator''))"

fun join_words :: "string list \<Rightarrow> string" where
  \<comment> \<open>\<open>' '.join(words)\<close>\<close>
  "join_words [] = []"
| "join_words [w] = w"
| "join_words (w # ws) = w @ '' '' @ join_words ws"

definition skip_words :: "string list" where
  "skip_words = [''generate'', ''create'', ''make'', ''build'', ''scan'', ''check'', ''test'',
                 ''analyze'', ''process'']"

definition extract_target :: "string \<Rightarrow> string" where
  \<comment> \<open>\<open>_extract_target(text, command_type)\<close>; the command type is not used\<close>
  "extract_target text =
     (case re_search False file_path_pattern text of
        Some file_match \<Rightarrow> group1 file_match
      | None \<Rightarrow>
     (case re_search False url_pattern text of
        Some url_match \<Rightarrow> group0 url_match
      | None \<Rightarrow>
     (case re_search False ip_address_pattern text of
        Some ip_match \<Rightarrow> group0 ip_match
      | None \<Rightarrow>
     (case re_search True hostname_pattern text of
        Some hostname_match \<Rightarrow> group1 hostname_match
      | None \<Rightarrow>
     (case re_search True target_pattern text of
        Some target_match \<Rightarrow> group1 target_match
      | None \<Rightarrow>
          (let words = py_split text;
               target_words = filter (\<lambda>w. py_lower w \<notin> set skip_words) (drop 2 words)
           in if length words > 2 \<and> target_words \<noteq> [] then join_words (take 3 target_words)
              else text))))))"

definition boolean_flags :: "(string \<times> regex) list" where
  "boolean_flags =
    [(''verbose'', seqs [WordBoundary, any_of [''verbose'', ''detailed'', ''full''], WordBoundary]),
     (''quiet'', seqs [WordBoundary, any_of [''quiet'', ''silent'', ''minimal''], WordBoundary]),
     (''force'', seqs [WordBoundary, any_of [''force'', ''overwrite''], WordBoundary]),
     (''recursive'', seqs [WordBoundary, any_of [''recursive'', ''recursively''], WordBoundary])]"

definition numeric_patterns :: "(string \<times> regex) list" where
  "numeric_patterns =
    [(''timeout'', seqs [any_of [''timeout'', ''time''], spaces, Group (Plus digit)]),
     (''limit'', seqs [any_of [''limit'', ''max'', ''maximum''], spaces, Group (Plus digit)]),
     (''port'', seqs [any_of [''port''], spaces, Group (Plus digit)])]"

definition list_param :: "string \<Rightarrow> string list \<Rightarrow> (string \<times> json) list" where
  \<comment> \<open>\<open>if found: parameters[key] = found\<close>\<close>
  "list_param k found = (if found \<noteq> [] then [(k, JArray (map JString found))] else [])"

definition extract_parameters :: "string \<Rightarrow> (string \<times> json) list" where
  "extract_parameters text =
     list_param ''files'' (re_findall file_path_pattern group1 text)
     @ list_param ''urls'' (re_findall url_pattern group0 text)
     @ list_param ''ip_addresses'' (re_findall ip_address_pattern group0 text)
     @ concat (map (\<lambda>(flag, pattern). if matches True pattern text then [(flag, JBool True)] else [])
                   boolean_flags)
     @ concat (map (\<lambda>(param, pattern).
                      case re_search True pattern text of
                        Some m \<Rightarrow> [(param, JInt (py_int (group1 m)))]
                      | None \<Rightarrow> [])
                   numeric_patterns)"

definition specific_keywords :: "string list" where
  "specific_keywords = [''generate'', ''create'', ''scan'', ''analyze'', ''process'']"

definition calculate_confidence :: "string \<Rightarrow> rat" where
  \<comment> \<open>\<open>_calculate_confidence(text, command_type)\<close>; the command type is not used\<close>
  "calculate_confidence text =
     (let c0 = 5 / 10;
          c1 = (if length (py_split text) > 3 then c0 + 2 / 10 else c0);
          c2 = (if list_ex (\<lambda>keyword. str_contains keyword (py_lower text)) specific_keywords
                then c1 + 2 / 10 else c1);
          c3 = (if matches False file_path_pattern text \<or> matches False url_pattern text
                then c2 + 1 / 10 else c2)
      in min c3 1)"

definition create_error_command :: "string \<Rightarrow> string \<Rightarrow> command" where
  "create_error_command now error_message =
     \<lparr>original_text = [], command_type = ''error'', agent = ''unknown'', target = [],
      parameters = [], confidence = 0, timestamp = now, error = Some error_message\<rparr>"

definition parse_command :: "string \<Rightarrow> string \<Rightarrow> command" where
  \<comment> \<open>\<open>now\<close> is \<open>datetime.now().isoformat()\<close>. The body of the \<open>try\<close> calls string
     methods, \<open>re\<close> and \<open>int\<close> on a run of digits, none of which raises, so the
     \<open>except\<close> branch is not taken.\<close>
  "parse_command now raw_text =
     (let text = py_strip raw_text in
      if text = [] then create_error_command now ''Empty command''
      else (case identify_command_type text of
              (ctype, agent_name) \<Rightarrow>
                \<lparr>original_text = text,
                 command_type = ctype,
                 agent = agent_name,
                 target = extract_target text,
                 parameters = extract_parameters text,
                 confidence = calculate_confidence text,
                 timestamp = now,
                 error = None\<rparr>))"

definition validate_command :: "command \<Rightarrow> bool" where
  \<comment> \<open>the three required keys are always there in a \<open>command\<close>\<close>
  "validate_command cmd = (command_type cmd \<noteq> ''error'')"


section \<open>Properties of the parser\<close>

lemma if_neq: "x \<noteq> z \<Longrightarrow> y \<noteq> z \<Longrightarrow> (if c then x else y) \<noteq> z"
  by simp

lemma get_command_type_not_error: "get_command_type text a \<noteq> ''error''"
  unfolding get_command_type_def Let_def
  by (intro if_neq) simp_all

lemma identify_command_type_not_error: "fst (identify_command_type text) \<noteq> ''error''"
  by (simp add: identify_command_type_def Let_def get_command_type_not_error split: option.splits)


lemma all_dropWhile_iff: "(\<forall>x\<in>set (dropWhile P xs). P x) \<longleftrightarrow> (\<forall>x\<in>set xs. P x)"
  by (induction xs) auto

lemma py_strip_empty_iff: "py_strip text = [] \<longleftrightarrow> (\<forall>c\<in>set text. is_space c)"
  by (simp add: py_strip_def dropWhile_eq_Nil_conv all_dropWhile_iff)



subsection \<open>The scan scenario\<close>

definition scan_text :: string where
  "scan_text = ''scan 192.168.1.5 for vulnerabilities''"

lemma strip_scan_text: "py_strip scan_text = scan_text"
  by code_simp

lemma identify_scan_text: "identify_command_type scan_text = (''general'', ''orchestrator'')"
  by code_simp

lemma target_scan_text: "extract_target scan_text = ''192.168.1.5''"
  by code_simp

lemma parameters_scan_text:
  "extract_parameters scan_text = [(''ip_addresses'', JArray [JString ''192.168.1.5''])]"
  by code_simp

lemma confidence_scan_text: "calculate_confidence scan_text = 9 / 10"
  by code_simp

lemma scan_text_not_empty: "scan_text \<noteq> []"
  by (simp add: scan_text_def)

text \<open>
  Claim C2, as the code has it. Parsing \<open>"scan 192.168.1.5 for vulnerabilities"\<close>
  yields a command with target \<open>"192.168.1.5"\<close> and \<open>parameters.ip_addresses\<close> equal
  to \<open>["192.168.1.5"]\<close>, but with agent \<open>"orchestrator"\<close> and command type
  \<open>"general"\<close>: no pattern of any agent matches the text, since in the \<open>secops\<close>
  patterns the verb is followed by \<open>for\<close> or by the kind of scan, never by a target.
\<close>

theorem parse_scan_text:
  "parse_command now scan_text =
     \<lparr>original_text = scan_text, command_type = ''general'', agent = ''orchestrator'',
      target = ''192.168.1.5'',
      parameters = [(''ip_addresses'', JArray [JString ''192.168.1.5''])],
      confidence = 9 / 10, timestamp = now, error = None\<rparr>"
  by (simp add: parse_command_def strip_scan_text identify_scan_text target_scan_text
      parameters_scan_text confidence_scan_text scan_text_not_empty)

text \<open>The claim as stated names the agent \<open>secops\<close> and the type \<open>security_scan\<close>.\<close>

theorem parse_scan_text_counterexample:
  "agent (parse_command ''2025-11-04T10:33:20'' scan_text) \<noteq> ''secops''
   \<and> command_type (parse_command ''2025-11-04T10:33:20'' scan_text) \<noteq> ''security_scan''"
  by (simp add: parse_command_def strip_scan_text identify_scan_text scan_text_not_empty)


section \<open>The orchestrator (\<open>agents/orchestrator.py\<close>)\<close>

text \<open>
  An agent's \<open>execute(target, parameters)\<close> and a plugin's \<open>run(target)\<close> are code
  outside the core: they return a text or raise, and they may act on the world
  (files, the network). A handler is a function of the state \<open>'w\<close> of that world; its
  result is \<open>Inr\<close> of the text it returns or \<open>Inl\<close> of the message \<open>str(e)\<close> of the
  exception it raises. \<open>self.agents\<close> and \<open>self.plugins\<close> are dicts, in insertion
  order.
\<close>

type_synonym 'w handler = "string \<Rightarrow> (string \<times> json) list \<Rightarrow> 'w \<Rightarrow> (string + string) \<times> 'w"

type_synonym 'w plugin = "string \<Rightarrow> 'w \<Rightarrow> (string + string) \<times> 'w"

record 'w orchestrator =
  agents :: "(string \<times> 'w handler) list"
  plugins :: "(string \<times> 'w plugin) list"

definition cross_mark :: string where
  \<comment> \<open>the character U+274C of the messages, in UTF-8\<close>
  "cross_mark = [CHR 0xE2, CHR 0x9D, CHR 0x8C]"

definition plugin_matches :: "string \<Rightarrow> string \<Rightarrow> string \<Rightarrow> bool" where
  \<comment> \<open>\<open>_plugin_matches(plugin_name, command_type, target)\<close>\<close>
  "plugin_matches plugin_name ctype tgt =
     (let target_lower = py_lower tgt; plugin_lower = py_lower plugin_name in
      str_contains plugin_lower target_lower
      \<or> str_contains target_lower plugin_lower
      \<or> str_contains ctype plugin_lower)"

definition caught :: "(string + string) \<times> 'w \<Rightarrow> string \<times> 'w" where
  \<comment> \<open>the \<open>try\<close> of \<open>execute_command\<close> around a handler: an exception becomes the
     text of an error\<close>
  "caught outcome =
     (case outcome of
        (Inr result, w) \<Rightarrow> (result, w)
      | (Inl e, w) \<Rightarrow> (cross_mark @ '' Execution error: '' @ e, w))"

definition execute_command :: "'w orchestrator \<Rightarrow> command \<Rightarrow> 'w \<Rightarrow> string \<times> 'w" where
  "execute_command orch cmd w =
     (case map_of (agents orch) (agent cmd) of
        Some h \<Rightarrow> caught (h (target cmd) (parameters cmd) w)
      | None \<Rightarrow>
     (case find (\<lambda>(plugin_name, p). plugin_matches plugin_name (command_type cmd) (target cmd))
                (plugins orch) of
        Some (plugin_name, p) \<Rightarrow> caught (p (target cmd) w)
      | None \<Rightarrow>
     (case map_of (agents orch) ''general'' of
        Some h \<Rightarrow> caught (h (target cmd) (parameters cmd) w)
      | None \<Rightarrow>
          (cross_mark @ '' No agent or plugin found to handle: '' @ command_type cmd, w))))"

section \<open>The voice pipeline (\<open>core/voice_pipeline.py\<close>)\<close>

text \<open>
  Of the pipeline the model keeps what the text path uses: the orchestrator, the
  memory engine, the callback queue and the world the handlers act on. The threads
  and the audio are left out; \<open>process_audio\<close> starts from the transcribed text.
  A \<open>clock\<close> holds the clock readings of one pass: the parser's timestamp and the
  two readings of \<open>add_entry\<close>.
\<close>

record callback =
  cb_type :: string
  cb_text :: string
  cb_result :: string
  cb_command :: command

record 'w voice_pipeline =
  orchestrator :: "'w orchestrator"
  memory :: memory_engine
  callback_queue :: "callback list"
  world :: 'w

record clock =
  parse_time :: string
  log_ms :: int
  log_time :: string

definition handle_transcription :: "clock \<Rightarrow> string \<Rightarrow> 'w voice_pipeline \<Rightarrow> 'w voice_pipeline" where
  \<comment> \<open>\<open>_handle_transcription(text)\<close>. Nothing in the body of its \<open>try\<close> raises:
     \<open>parse_command\<close>, \<open>execute_command\<close> and \<open>add_entry\<close> catch their own exceptions
     and the queue is unbounded, so the \<open>except\<close> branch, the only place that logs
     \<open>success=False\<close>, is not taken.\<close>
  "handle_transcription clk text p =
     (let cmd = parse_command (parse_time clk) text in
      case execute_command (orchestrator p) cmd (world p) of
        (result, w') \<Rightarrow>
          (case add_entry (log_ms clk) (log_time clk) text result (agent cmd) True None (memory p) of
             (entry_id, memory') \<Rightarrow>
               p\<lparr>memory := memory',
                 world := w',
                 callback_queue := callback_queue p
                   @ [\<lparr>cb_type = ''voice_command'', cb_text = text, cb_result = result,
                       cb_command = cmd\<rparr>]\<rparr>))"

definition process_text_command :: "clock \<Rightarrow> string \<Rightarrow> 'w voice_pipeline \<Rightarrow> 'w voice_pipeline" where
  "process_text_command clk text p = handle_transcription clk text p"

definition process_audio :: "clock \<Rightarrow> string \<Rightarrow> 'w voice_pipeline \<Rightarrow> 'w voice_pipeline" where
  \<comment> \<open>\<open>_process_audio\<close> after the transcription: \<open>if text and text.strip()\<close>\<close>
  "process_audio clk text p =
     (if text \<noteq> [] \<and> py_strip text \<noteq> [] then handle_transcription clk text p else p)"

subsection \<open>Concrete handlers for the runs below\<close>

text \<open>
  The world of these runs is the list of the calls made so far. \<open>hello_world\<close> is the
  plugin of \<open>plugins/hello_world.py\<close>; \<open>secops_stub\<close> returns a fixed text and
  \<open>failing_agent\<close> raises.
\<close>

definition hello_world :: "string list plugin" where
  "hello_world input_text calls =
     (Inr (''Hello, '' @ input_text @ ''! This is the Hello World plugin speaking.''),
      calls @ [''hello_world.run''])"

definition secops_stub :: "string list handler" where
  "secops_stub tgt params calls = (Inr ''OK:scan-done'', calls @ [''secops.execute''])"

definition failing_agent :: "string list handler" where
  "failing_agent tgt params calls = (Inl ''connection refused'', calls @ [''secops.execute''])"

definition demo_clock :: clock where
  "demo_clock = \<lparr>parse_time = ''2025-11-04T10:33:20'', log_ms = 1762250000000,
                 log_time = ''2025-11-04T10:33:20''\<rparr>"

definition pipeline_with :: "string list orchestrator \<Rightarrow> string list voice_pipeline" where
  "pipeline_with orch =
     \<lparr>orchestrator = orch, memory = fresh_engine, callback_queue = [], world = []\<rparr>"


section \<open>Properties of the orchestrator and of the pipeline\<close>

definition scan_command :: command where
  "scan_command =
     \<lparr>original_text = ''security scan of 192.168.1.5'', command_type = ''security_scan'',
      agent = ''secops'', target = ''192.168.1.5'',
      parameters = [(''ip_addresses'', JArray [JString ''192.168.1.5''])],
      confidence = 9 / 10, timestamp = ''2025-11-04T10:33:20'', error = None\<rparr>"

definition secops_orchestrator :: "string list orchestrator" where
  "secops_orchestrator =
     \<lparr>agents = [(''secops'', secops_stub)], plugins = [(''security_scan'', hello_world)]\<rparr>"

definition hello_orchestrator :: "string list orchestrator" where
  "hello_orchestrator = \<lparr>agents = [], plugins = [(''hello_world'', hello_world)]\<rparr>"

definition port_scan_text :: string where
  "port_scan_text = ''port scan 10.0.0.1''"

definition failing_orchestrator :: "string list orchestrator" where
  "failing_orchestrator = \<lparr>agents = [(''secops'', failing_agent)], plugins = []\<rparr>"


text \<open>
  Claim C5. For every command whose agent is the name of a registered built-in
  handler, \<open>execute_command\<close> routes the command to that handler (its result, or the
  text of the error it raised) and consults no plugin: the outcome is the same
  whatever plugins are registered, also ones whose name matches the target or the
  command type.
\<close>

theorem builtin_agent_wins:
  assumes "map_of (agents orch) (agent cmd) = Some h"
  shows "execute_command orch cmd w = caught (h (target cmd) (parameters cmd) w)
       \<and> execute_command (orch\<lparr>plugins := ps\<rparr>) cmd w = execute_command orch cmd w"
  using assms by (simp add: execute_command_def)

theorem builtin_agent_wins_witness:
  "map_of (agents secops_orchestrator) (agent scan_command) = Some secops_stub
   \<and> plugin_matches ''security_scan'' (command_type scan_command) (target scan_command)
   \<and> execute_command secops_orchestrator scan_command [] = (''OK:scan-done'', [''secops.execute''])
   \<and> execute_command (secops_orchestrator\<lparr>plugins := []\<rparr>) scan_command []
       = execute_command secops_orchestrator scan_command []"
proof -
  have h: "map_of (agents secops_orchestrator) (agent scan_command) = Some secops_stub"
    by (simp add: secops_orchestrator_def scan_command_def)
  have m: "plugin_matches ''security_scan'' (command_type scan_command) (target scan_command)"
    by (simp add: plugin_matches_def scan_command_def text_eval)
  have c: "caught (secops_stub (target scan_command) (parameters scan_command) [])
      = (''OK:scan-done'', [''secops.execute''])"
    by (simp add: caught_def secops_stub_def)
  from builtin_agent_wins[OF h, of "[]" "[]"] m h c show ?thesis by simp
qed

lemma handle_transcription_logs_success:
  "memory_data (memory (handle_transcription clk text p)) =
     memory_data (memory p) @
     [JObject [(''id'', JString (generate_id (log_ms clk) (memory p))),
               (''timestamp'', JString (log_time clk)),
               (''command'', JString text),
               (''result'', JString (fst (execute_command (orchestrator p)
                   (parse_command (parse_time clk) text) (world p)))),
               (''agent'', JString (agent (parse_command (parse_time clk) text))),
               (''success'', JBool True),
               (''metadata'', JObject [])]]"
  by (simp add: handle_transcription_def add_entry_def Let_def split: prod.splits)

lemma handle_transcription_world:
  "world (handle_transcription clk text p) =
     snd (execute_command (orchestrator p) (parse_command (parse_time clk) text) (world p))"
  by (simp add: handle_transcription_def Let_def split: prod.splits)

lemma process_audio_skips_error_commands:
  "command_type (parse_command (parse_time clk) text) = ''error'' \<Longrightarrow> process_audio clk text p = p"
  using identify_command_type_not_error[of "py_strip text"]
  by (auto simp: process_audio_def parse_command_def Let_def split: prod.splits if_splits)

lemma demo_id: "generate_id 1762250000000 fresh_engine = ''mem_1762250000000_0''"
  by (simp add: generate_id_def fresh_engine_def str_int_def str_nat.simps digit_char_def)

lemma parse_empty:
  "parse_command now [] = create_error_command now ''Empty command''"
  by (simp add: parse_command_def py_strip_def)

lemma strip_port_scan_text: "py_strip port_scan_text = port_scan_text"
  by code_simp

lemma identify_port_scan_text: "identify_command_type port_scan_text = (''port_scan'', ''secops'')"
  by code_simp

lemma port_scan_text_not_empty: "port_scan_text \<noteq> []"
  by (simp add: port_scan_text_def)

lemma agent_port_scan_text: "agent (parse_command now port_scan_text) = ''secops''"
  by (simp add: parse_command_def strip_port_scan_text identify_port_scan_text
      port_scan_text_not_empty)

lemma execute_failing_agent:
  "agent cmd = ''secops'' \<Longrightarrow>
   execute_command failing_orchestrator cmd w
     = (cross_mark @ '' Execution error: connection refused'', w @ [''secops.execute''])"
  by (simp add: execute_command_def failing_orchestrator_def failing_agent_def caught_def)


text \<open>
  Claim C1 asks that a command of type \<open>"error"\<close> is never passed to
  \<open>execute_command\<close> and leaves no dispatch in the audit log, on both entry paths.
  \<open>_process_audio\<close> drops a blank transcription before \<open>_handle_transcription\<close>
  (lemma \<open>process_audio_skips_error_commands\<close>), but \<open>process_text_command\<close> has no
  such test and \<open>validate_command\<close> is never called: on the empty text the error
  command is dispatched, the empty target matches the first plugin, the plugin runs
  and the run is logged as a success.
\<close>

theorem process_text_command_dispatches_error_command:
  "command_type (parse_command (parse_time demo_clock) []) = ''error''
   \<and> world (process_text_command demo_clock [] (pipeline_with hello_orchestrator))
       = [''hello_world.run'']
   \<and> memory_data (memory (process_text_command demo_clock [] (pipeline_with hello_orchestrator)))
       = [JObject [(''id'', JString ''mem_1762250000000_0''),
                   (''timestamp'', JString ''2025-11-04T10:33:20''),
                   (''command'', JString []),
                   (''result'', JString ''Hello, ! This is the Hello World plugin speaking.''),
                   (''agent'', JString ''unknown''),
                   (''success'', JBool True),
                   (''metadata'', JObject [])]]"
proof -
  have e: "execute_command hello_orchestrator (create_error_command ''2025-11-04T10:33:20'' ''Empty command'') []
      = (''Hello, ! This is the Hello World plugin speaking.'', [''hello_world.run''])"
    by (simp add: execute_command_def hello_orchestrator_def create_error_command_def
        plugin_matches_def caught_def hello_world_def text_eval)
  show ?thesis
    by (simp add: process_text_command_def handle_transcription_logs_success
        handle_transcription_world pipeline_with_def demo_clock_def parse_empty e demo_id)
       (simp add: create_error_command_def fresh_engine_def)
qed



text \<open>
  Claim C3 asks that a handler that raises still yields a text from
  \<open>execute_command\<close>, which holds, and that the entry logged for it has
  \<open>success == false\<close>. \<open>_handle_transcription\<close> logs \<open>success=True\<close> whenever
  \<open>execute_command\<close> returns, which it always does (lemma
  \<open>handle_transcription_logs_success\<close>): the failure of the handler is logged as a
  success.
\<close>

theorem raising_handler_logged_as_success:
  "execute_command failing_orchestrator (parse_command (parse_time demo_clock) port_scan_text) []
     = (cross_mark @ '' Execution error: connection refused'', [''secops.execute''])
   \<and> memory_data (memory (process_text_command demo_clock port_scan_text
                              (pipeline_with failing_orchestrator)))
       = [JObject [(''id'', JString ''mem_1762250000000_0''),
                   (''timestamp'', JString ''2025-11-04T10:33:20''),
                   (''command'', JString port_scan_text),
                   (''result'', JString (cross_mark @ '' Execution error: connection refused'')),
                   (''agent'', JString ''secops''),
                   (''success'', JBool True),
                   (''metadata'', JObject [])]]"
  by (simp add: process_text_command_def handle_transcription_logs_success pipeline_with_def
      demo_clock_def agent_port_scan_text execute_failing_agent demo_id)
     (simp add: fresh_engine_def)



section \<open>Export and import\<close>

text \<open>
  Reading back what the encoder wrote gives the value that was written, for every
  value whose dicts have distinct keys (as every Python dict has). The proof follows
  the encoder: strings first, then integers, then the values by induction on the
  encoder's recursion, with the text that follows the value left arbitrary.
\<close>

lemma with_char_simps [simp]:
  "with_char c None = None"
  "with_char c (Some (s, rest)) = Some (c # s, rest)"
  by (simp_all add: with_char_def)

lemma scan_plain:
  "c \<noteq> dquote \<Longrightarrow> c \<noteq> backslash \<Longrightarrow> map_of control_escapes c = None \<Longrightarrow>
   scan_string (c # r) = with_char c (scan_string r)"
  by simp




lemma scan_encode_string:
  "encode_string s @ rest = dquote # concat (map escape_char s) @ dquote # rest"
  by (simp add: encode_string_def)


definition ends_value :: "string \<Rightarrow> bool" where
  "ends_value rest = (case rest of [] \<Rightarrow> True | c # _ \<Rightarrow> c = CHR '','' \<or> c = CHR 0x0A)"















definition starts_solid :: "string \<Rightarrow> bool" where
  \<comment> \<open>the text starts with a character that is neither white space nor \<open>]\<close>\<close>
  "starts_solid s = (case s of [] \<Rightarrow> False | c # _ \<Rightarrow> c \<notin> set json_ws \<and> c \<noteq> CHR '']'')"




lemma starts_solid_not_empty: "starts_solid s \<Longrightarrow> s \<noteq> []"
  by (auto simp: starts_solid_def)

























lemma ends_value_comma [simp]: "ends_value (CHR '','' # r)"
  by (simp add: ends_value_def)

lemma ends_value_newline [simp]: "ends_value (newline_indent l @ r)"
  by (simp add: ends_value_def newline_indent_def)











end
